theory Spec2Isabelle
  imports Complex_Main "HOL-Library.Sublist"
begin

section \<open>Chunks and retrieval results\<close>

text \<open>
  A chunk is the dictionary built by \<open>WeaviateVectorStore.search\<close>. The consumers read
  \<open>chunk['content']\<close> directly and every other key with \<open>chunk.get(key, default)\<close>, so
  \<open>content\<close> is a plain field and the other fields are optional: \<open>None\<close> is a key that
  is absent. A Python \<open>str\<close> is written as a \<open>string\<close>, one character per code point, so
  that \<open>length\<close> is Python's \<open>len\<close>. A similarity is the exact rational value of the
  Python float.
\<close>

record chunk =
  content :: string
  document_name :: "string option"
  page_number :: "int option"
  content_type :: "string option"
  similarity :: "rat option"

text \<open>
  A Python \<open>dict\<close> keeps its keys in insertion order and \<open>.items()\<close> iterates in that
  order: the result map is an association list.
\<close>

type_synonym result_map = "(string \<times> chunk list) list"

section \<open>The context aggregator (app/agents/aggregator.py)\<close>

record ContextAggregator =
  max_context_tokens :: int

text \<open>The inner loop of \<open>aggregate\<close>: \<open>for chunk in chunks\<close>, on the two accumulators.\<close>

fun collect_chunks :: "chunk list \<Rightarrow> chunk list \<Rightarrow> string set \<Rightarrow> chunk list \<times> string set" where
  "collect_chunks [] all_chunks seen_content = (all_chunks, seen_content)"
| "collect_chunks (c # chunks) all_chunks seen_content =
     (if content c \<notin> seen_content
      then collect_chunks chunks (all_chunks @ [c]) (insert (content c) seen_content)
      else collect_chunks chunks all_chunks seen_content)"

text \<open>The outer loop: \<open>for query, chunks in results_by_query.items()\<close>.\<close>

fun collect_results :: "result_map \<Rightarrow> chunk list \<Rightarrow> string set \<Rightarrow> chunk list \<times> string set" where
  "collect_results [] all_chunks seen_content = (all_chunks, seen_content)"
| "collect_results ((query, chunks) # rest) all_chunks seen_content =
     (case collect_chunks chunks all_chunks seen_content of
        (all_chunks', seen_content') \<Rightarrow> collect_results rest all_chunks' seen_content')"

text \<open>\<open>all_chunks\<close> as it stands after the two loops, before the sort.\<close>

definition collected :: "result_map \<Rightarrow> chunk list" where
  "collected results_by_query = fst (collect_results results_by_query [] {})"

text \<open>The sort key \<open>lambda x: x.get('similarity', 0)\<close>.\<close>

definition similarity_key :: "chunk \<Rightarrow> rat" where
  "similarity_key x = (case similarity x of None \<Rightarrow> 0 | Some s \<Rightarrow> s)"

text \<open>
  \<open>list.sort(key=..., reverse=True)\<close> is the language's stable sort: descending by key,
  elements with equal keys in their original order. A stable sort is determined by that
  contract; it is written here as insertion from the right, each element placed before
  the first element whose key is not larger.
\<close>

fun insort_desc :: "('a \<Rightarrow> 'k::linorder) \<Rightarrow> 'a \<Rightarrow> 'a list \<Rightarrow> 'a list" where
  "insort_desc key x [] = [x]"
| "insort_desc key x (y # ys) =
     (if key y \<le> key x then x # y # ys else y # insort_desc key x ys)"

definition sort_desc :: "('a \<Rightarrow> 'k::linorder) \<Rightarrow> 'a list \<Rightarrow> 'a list" where
  "sort_desc key xs = foldr (insort_desc key) xs []"

definition ranked :: "result_map \<Rightarrow> chunk list" where
  "ranked results_by_query = sort_desc similarity_key (collected results_by_query)"

text \<open>The packing loop, with its \<open>break\<close>.\<close>

fun pack_chunks :: "chunk list \<Rightarrow> int \<Rightarrow> chunk list \<Rightarrow> int \<Rightarrow> chunk list" where
  "pack_chunks [] max_chars aggregated_chunks total_chars = aggregated_chunks"
| "pack_chunks (c # rest) max_chars aggregated_chunks total_chars =
     (let chunk_chars = int (length (content c)) in
      if total_chars + chunk_chars \<le> max_chars
      then pack_chunks rest max_chars (aggregated_chunks @ [c]) (total_chars + chunk_chars)
      else aggregated_chunks)"

definition aggregate :: "ContextAggregator \<Rightarrow> result_map \<Rightarrow> chunk list" where
  "aggregate self results_by_query =
     (let all_chunks = ranked results_by_query;
          max_chars = max_context_tokens self * 4
      in pack_chunks all_chunks max_chars [] 0)"

text \<open>Every chunk of the result map, in iteration order, and the characters of a list.\<close>

definition flattened :: "result_map \<Rightarrow> chunk list" where
  "flattened results_by_query = concat (map snd results_by_query)"

definition total_chars_of :: "chunk list \<Rightarrow> int" where
  "total_chars_of chunks = sum_list (map (\<lambda>c. int (length (content c))) chunks)"

text \<open>
  \<open>format_context\<close>. \<open>str(i)\<close> of an integer is its decimal numeral; the f-string of a
  block calls it on the source number and on the page number.
\<close>

definition digit_char :: "nat \<Rightarrow> char" where
  "digit_char d = ''0123456789'' ! d"

fun digits_of :: "nat \<Rightarrow> string" where
  "digits_of n =
     (if n < 10 then [digit_char n] else digits_of (n div 10) @ [digit_char (n mod 10)])"

declare digits_of.simps [simp del]

definition str_int :: "int \<Rightarrow> string" where
  "str_int i = (if i < 0 then CHR ''-'' # digits_of (nat (- i)) else digits_of (nat i))"

definition newline :: char where
  "newline = CHR 0x0A"

text \<open>\<open>sep.join(parts)\<close>.\<close>

fun join :: "string \<Rightarrow> string list \<Rightarrow> string" where
  "join sep [] = []"
| "join sep [p] = p"
| "join sep (p # q # ps) = p @ sep @ join sep (q # ps)"

definition separator :: string where
  "separator = [newline, newline] @ ''---'' @ [newline, newline]"

text \<open>The f-string appended for chunk number \<open>i\<close>, with the three \<open>.get\<close> defaults.\<close>

definition source_block :: "nat \<Rightarrow> chunk \<Rightarrow> string" where
  "source_block i c =
     (let doc_name = (case document_name c of None \<Rightarrow> ''Unknown'' | Some d \<Rightarrow> d);
          page_num = (case page_number c of None \<Rightarrow> ''N/A'' | Some p \<Rightarrow> str_int p);
          ctype = (case content_type c of None \<Rightarrow> ''text'' | Some t \<Rightarrow> t)
      in ''[Source '' @ str_int (int i) @ ''] Document: '' @ doc_name @ '', Page: '' @ page_num
           @ '', Type: '' @ ctype @ [newline] @ content c)"

text \<open>The loop \<open>for i, chunk in enumerate(chunks, 1)\<close>, started at \<open>i\<close>.\<close>

fun context_parts :: "nat \<Rightarrow> chunk list \<Rightarrow> string list" where
  "context_parts i [] = []"
| "context_parts i (c # chunks) = source_block i c # context_parts (Suc i) chunks"

definition format_context :: "chunk list \<Rightarrow> string" where
  "format_context chunks =
     (if chunks = [] then ''No relevant context found.''
      else join separator (context_parts 1 chunks))"

section \<open>Python values and exceptions\<close>

text \<open>
  What \<open>json.loads\<close> returns, and the dictionaries the agents build: a \<open>dict\<close> is the list
  of its items in insertion order. A float is its exact rational value.
\<close>

datatype json =
  JNull | JBool bool | JInt int | JFloat rat | JStr string
  | JArr "json list" | JObj "(string \<times> json) list"

text \<open>
  An exception is its class and its \<open>str(e)\<close>. \<open>OtherException\<close> is any subclass of
  \<open>Exception\<close> that is none of the classes named before it (a connection error, a
  timeout, an API error).
\<close>

datatype exn_class =
  JSONDecodeError | KeyError | TypeError | AttributeError | UnboundLocalError | OtherException

datatype exn = Exn exn_class string

fun exn_class_of :: "exn \<Rightarrow> exn_class" where
  "exn_class_of (Exn c msg) = c"

fun exn_str :: "exn \<Rightarrow> string" where
  "exn_str (Exn c msg) = msg"

definition quoted :: "string \<Rightarrow> string" where
  "quoted s = [CHR 0x27] @ s @ [CHR 0x27]"

fun type_name :: "json \<Rightarrow> string" where
  "type_name JNull = ''NoneType''"
| "type_name (JBool b) = ''bool''"
| "type_name (JInt i) = ''int''"
| "type_name (JFloat x) = ''float''"
| "type_name (JStr s) = ''str''"
| "type_name (JArr xs) = ''list''"
| "type_name (JObj kvs) = ''dict''"

text \<open>
  \<open>value[key]\<close> with a string key, \<open>value.get(key, default)\<close> and \<open>len(value)\<close>, with the
  exception each raises on a value of the wrong type (messages as CPython 3.11 words them;
  the \<open>repr\<close> of a key is written for keys that need no escape).
\<close>

fun subscript :: "json \<Rightarrow> string \<Rightarrow> exn + json" where
  "subscript (JObj kvs) key =
     (case map_of kvs key of None \<Rightarrow> Inl (Exn KeyError (quoted key)) | Some v \<Rightarrow> Inr v)"
| "subscript (JArr xs) key = Inl (Exn TypeError ''list indices must be integers or slices, not str'')"
| "subscript (JStr s) key = Inl (Exn TypeError (''string indices must be integers, not '' @ quoted ''str''))"
| "subscript v key = Inl (Exn TypeError (quoted (type_name v) @ '' object is not subscriptable''))"

fun dict_get :: "json \<Rightarrow> string \<Rightarrow> json \<Rightarrow> exn + json" where
  "dict_get (JObj kvs) key dflt = Inr (case map_of kvs key of None \<Rightarrow> dflt | Some v \<Rightarrow> v)"
| "dict_get v key dflt =
     Inl (Exn AttributeError (quoted (type_name v) @ '' object has no attribute '' @ quoted ''get''))"

fun py_len :: "json \<Rightarrow> exn + int" where
  "py_len (JStr s) = Inr (int (length s))"
| "py_len (JArr xs) = Inr (int (length xs))"
| "py_len (JObj kvs) = Inr (int (length kvs))"
| "py_len v = Inl (Exn TypeError (''object of type '' @ quoted (type_name v) @ '' has no len()''))"

text \<open>
  \<open>json.loads\<close> is the standard library's: the model takes the parser as a parameter
  \<open>loads\<close>, \<open>None\<close> where the text is not JSON, and \<open>json_loads\<close> raises there.
\<close>

definition json_loads :: "(string \<Rightarrow> json option) \<Rightarrow> string \<Rightarrow> exn + json" where
  "json_loads loads text =
     (case loads text of None \<Rightarrow> Inl (Exn JSONDecodeError ''Expecting value'') | Some v \<Rightarrow> Inr v)"

text \<open>
  The name \<open>response\<close> read in a handler: it is bound only once \<open>chain.invoke\<close> has
  returned.
\<close>

definition read_response :: "string option \<Rightarrow> exn + string" where
  "read_response response =
     (case response of
        None \<Rightarrow> Inl (Exn UnboundLocalError
          (''cannot access local variable '' @ quoted ''response''
             @ '' where it is not associated with a value''))
      | Some c \<Rightarrow> Inr c)"

section \<open>The complexity classifier (app/agents/query_analyzer.py)\<close>

text \<open>
  \<open>analyzer_llm\<close> is \<open>(self.prompt | self.llm).invoke({"query": query})\<close>: the
  \<open>content\<close> of the response, or the exception the call raised.
\<close>

record QueryAnalyzer =
  analyzer_llm :: "string \<Rightarrow> exn + string"

text \<open>
  The \<open>try\<close> block once \<open>response\<close> is bound: \<open>json.loads\<close>, then the f-string of the
  log line, which reads \<open>result['is_complex']\<close> and \<open>result['reasoning']\<close> in that order,
  then \<open>return result\<close>.
\<close>

definition analyze_try :: "(string \<Rightarrow> json option) \<Rightarrow> string \<Rightarrow> exn + json" where
  "analyze_try loads response =
     (case json_loads loads response of
        Inl e \<Rightarrow> Inl e
      | Inr result \<Rightarrow>
          (case subscript result ''is_complex'' of
             Inl e \<Rightarrow> Inl e
           | Inr c \<Rightarrow>
               (case subscript result ''reasoning'' of
                  Inl e \<Rightarrow> Inl e
                | Inr r \<Rightarrow> Inr result)))"

text \<open>
  The two handlers. \<open>except json.JSONDecodeError\<close> formats \<open>response.content\<close> into its
  warning before it returns; \<open>except Exception\<close> takes every other exception. An
  exception raised inside a handler leaves the function.
\<close>

definition analyze_except :: "exn \<Rightarrow> string option \<Rightarrow> exn + json" where
  "analyze_except e response =
     (if exn_class_of e = JSONDecodeError
      then (case read_response response of
              Inl e' \<Rightarrow> Inl e'
            | Inr c \<Rightarrow> Inr (JObj [(''is_complex'', JBool False),
                                  (''reasoning'', JStr ''Failed to parse response'')]))
      else Inr (JObj [(''is_complex'', JBool False),
                      (''reasoning'', JStr (''Error: '' @ exn_str e))]))"

definition analyze :: "(string \<Rightarrow> json option) \<Rightarrow> QueryAnalyzer \<Rightarrow> string \<Rightarrow> exn + json" where
  "analyze loads self query =
     (case analyzer_llm self query of
        Inl e \<Rightarrow> analyze_except e None
      | Inr response \<Rightarrow>
          (case analyze_try loads response of
             Inl e \<Rightarrow> analyze_except e (Some response)
           | Inr result \<Rightarrow> Inr result))"

section \<open>The query decomposer (app/agents/decomposer.py)\<close>

record QueryDecomposer =
  decomposer_llm :: "string \<Rightarrow> exn + string"

text \<open>
  The \<open>try\<close> block once \<open>response\<close> is bound: \<open>json.loads\<close>,
  \<open>result.get("sub_questions", [])\<close>, \<open>len(sub_questions)\<close> in the log line (the loop over
  \<open>enumerate(sub_questions, 1)\<close> only logs, and whatever has a length here iterates), then
  \<open>return sub_questions\<close>.
\<close>

definition decompose_try :: "(string \<Rightarrow> json option) \<Rightarrow> string \<Rightarrow> exn + json" where
  "decompose_try loads response =
     (case json_loads loads response of
        Inl e \<Rightarrow> Inl e
      | Inr result \<Rightarrow>
          (case dict_get result ''sub_questions'' (JArr []) of
             Inl e \<Rightarrow> Inl e
           | Inr sub_questions \<Rightarrow>
               (case py_len sub_questions of
                  Inl e \<Rightarrow> Inl e
                | Inr n \<Rightarrow> Inr sub_questions)))"

definition decompose_except :: "string \<Rightarrow> exn \<Rightarrow> string option \<Rightarrow> exn + json" where
  "decompose_except query e response =
     (if exn_class_of e = JSONDecodeError
      then (case read_response response of
              Inl e' \<Rightarrow> Inl e'
            | Inr c \<Rightarrow> Inr (JArr [JStr query]))
      else Inr (JArr [JStr query]))"

definition decompose :: "(string \<Rightarrow> json option) \<Rightarrow> QueryDecomposer \<Rightarrow> string \<Rightarrow> exn + json" where
  "decompose loads self query =
     (case decomposer_llm self query of
        Inl e \<Rightarrow> decompose_except query e None
      | Inr response \<Rightarrow>
          (case decompose_try loads response of
             Inl e \<Rightarrow> decompose_except query e (Some response)
           | Inr sub_questions \<Rightarrow> Inr sub_questions))"

section \<open>The answer synthesizer (app/agents/synthesizer.py)\<close>

text \<open>
  \<open>round(x, 3)\<close> on the exact value of the float: the nearest multiple of \<open>1/1000\<close>, a
  tie going to the even one. (The float Python returns is the one nearest to this
  decimal.)
\<close>

definition round3 :: "rat \<Rightarrow> rat" where
  "round3 x =
     (let y = x * 1000; n = \<lfloor>y\<rfloor>; r = y - of_int n
      in (if r < 1 / 2 then of_int n
          else if 1 / 2 < r then of_int (n + 1)
          else if even n then of_int n else of_int (n + 1)) / 1000)"

text \<open>The dictionary \<open>_format_sources\<close> appends for one chunk.\<close>

definition source_of :: "chunk \<Rightarrow> json" where
  "source_of c =
     JObj [(''document_name'', JStr (case document_name c of None \<Rightarrow> ''Unknown'' | Some d \<Rightarrow> d)),
           (''page_number'', (case page_number c of None \<Rightarrow> JStr ''N/A'' | Some p \<Rightarrow> JInt p)),
           (''content_type'', JStr (case content_type c of None \<Rightarrow> ''text'' | Some t \<Rightarrow> t)),
           (''similarity'', (case similarity c of None \<Rightarrow> JInt 0 | Some x \<Rightarrow> JFloat (round3 x)))]"

fun format_sources :: "chunk list \<Rightarrow> json list" where
  "format_sources [] = []"
| "format_sources (c # chunks) = source_of c # format_sources chunks"

text \<open>\<open>str.strip()\<close>: the white space of \<open>str.isspace\<close> among the first 256 code points.\<close>

definition is_space :: "char \<Rightarrow> bool" where
  "is_space c =
     (let n = (of_char c :: nat)
      in (9 \<le> n \<and> n \<le> 13) \<or> (28 \<le> n \<and> n \<le> 32) \<or> n = 133 \<or> n = 160)"

definition strip :: "string \<Rightarrow> string" where
  "strip s = rev (dropWhile is_space (rev (dropWhile is_space s)))"

text \<open>
  \<open>synthesizer_llm self context question\<close> is
  \<open>(self.prompt | self.llm).invoke({"context": context, "question": question})\<close>.
\<close>

record AnswerSynthesizer =
  synthesizer_llm :: "string \<Rightarrow> string \<Rightarrow> exn + string"

record synthesis_result =
  answer :: string
  sources :: "json list"
  context_used :: int

definition synthesize_try :: "AnswerSynthesizer \<Rightarrow> string \<Rightarrow> string \<Rightarrow> chunk list \<Rightarrow> exn + synthesis_result" where
  "synthesize_try self question ctx srcs =
     (case synthesizer_llm self ctx question of
        Inl e \<Rightarrow> Inl e
      | Inr response \<Rightarrow>
          Inr \<lparr>answer = strip response,
               sources = format_sources srcs,
               context_used = int (length srcs)\<rparr>)"

definition synthesize :: "AnswerSynthesizer \<Rightarrow> string \<Rightarrow> string \<Rightarrow> chunk list \<Rightarrow> exn + synthesis_result" where
  "synthesize self question ctx srcs =
     (case synthesize_try self question ctx srcs of
        Inl e \<Rightarrow> Inr \<lparr>answer = ''Error generating answer: '' @ exn_str e,
                       sources = [],
                       context_used = 0\<rparr>
      | Inr r \<Rightarrow> Inr r)"

section \<open>The retriever (app/retrieval/retriever.py)\<close>

text \<open>
  The embedder and the chunk store are outside the repository's pure code and hold the
  only durable state: \<open>'w\<close> is that state, threaded through every call, and \<open>'v\<close> is an
  embedding vector. \<open>embedder\<close> is \<open>self.embedder.generate_single_embedding\<close> and
  \<open>vector_store\<close> is \<open>self.vector_store.search\<close>, each with the exception it may raise.
\<close>

record ('v, 'w) SemanticRetriever =
  vector_store :: "'v \<Rightarrow> int \<Rightarrow> string option \<Rightarrow> rat \<Rightarrow> 'w \<Rightarrow> (exn + chunk list) \<times> 'w"
  embedder :: "string \<Rightarrow> 'w \<Rightarrow> (exn + 'v) \<times> 'w"
  top_k :: int
  similarity_threshold :: rat

text \<open>\<open>k = top_k or self.top_k\<close>: \<open>None\<close> and \<open>0\<close> are falsy. There is no \<open>try\<close>.\<close>

definition retrieve ::
  "('v, 'w) SemanticRetriever \<Rightarrow> string \<Rightarrow> int option \<Rightarrow> string option \<Rightarrow> 'w \<Rightarrow> (exn + chunk list) \<times> 'w" where
  "retrieve self query k_arg document_filter w =
     (let k = (case k_arg of None \<Rightarrow> top_k self | Some n \<Rightarrow> if n = 0 then top_k self else n)
      in case embedder self query w of
           (Inl e, w1) \<Rightarrow> (Inl e, w1)
         | (Inr query_embedding, w1) \<Rightarrow>
             vector_store self query_embedding k document_filter (similarity_threshold self) w1)"

text \<open>
  \<open>results_by_query[query] = results\<close>: a key that is present keeps its place and takes
  the new value, a new key goes last.
\<close>

fun dict_set :: "('k \<times> 'a) list \<Rightarrow> 'k \<Rightarrow> 'a \<Rightarrow> ('k \<times> 'a) list" where
  "dict_set [] k v = [(k, v)]"
| "dict_set ((k', v') # d) k v = (if k' = k then (k, v) # d else (k', v') # dict_set d k v)"

text \<open>The loop \<open>for query in queries\<close> on the dictionary built so far.\<close>

fun retrieve_loop ::
  "('v, 'w) SemanticRetriever \<Rightarrow> string list \<Rightarrow> int option \<Rightarrow> string option \<Rightarrow> result_map \<Rightarrow> 'w
     \<Rightarrow> (exn + result_map) \<times> 'w" where
  "retrieve_loop self [] k_arg document_filter results_by_query w = (Inr results_by_query, w)"
| "retrieve_loop self (query # queries) k_arg document_filter results_by_query w =
     (case retrieve self query k_arg document_filter w of
        (Inl e, w1) \<Rightarrow> (Inl e, w1)
      | (Inr results, w1) \<Rightarrow>
          retrieve_loop self queries k_arg document_filter (dict_set results_by_query query results) w1)"

definition retrieve_for_multiple_queries ::
  "('v, 'w) SemanticRetriever \<Rightarrow> string list \<Rightarrow> int option \<Rightarrow> string option \<Rightarrow> 'w
     \<Rightarrow> (exn + result_map) \<times> 'w" where
  "retrieve_for_multiple_queries self queries k_arg document_filter w =
     retrieve_loop self queries k_arg document_filter [] w"


section \<open>The query endpoint (app/main.py)\<close>

record query_request =
  question :: string
  document_filter :: "string option"

text \<open>
  The endpoint takes the two language-model agents at the types their signatures and
  docstrings declare: \<open>analyze\<close> a dictionary of \<open>is_complex\<close> (bool) and \<open>reasoning\<close>
  (str), \<open>decompose\<close> a list of strings; either may raise.
\<close>

record analysis =
  is_complex :: bool
  reasoning :: string

record ('v, 'w) app =
  query_analyzer :: "string \<Rightarrow> exn + analysis"
  query_decomposer :: "string \<Rightarrow> exn + string list"
  retriever :: "('v, 'w) SemanticRetriever"
  context_aggregator :: ContextAggregator
  answer_synthesizer :: AnswerSynthesizer

text \<open>\<open>QueryResponse\<close>; the two entries of \<open>metadata\<close> are the last two fields.\<close>

record query_response =
  question :: string
  answer :: string
  is_complex :: bool
  sub_questions :: "string list option"
  sources :: "json list"
  total_chunks_retrieved :: int
  analysis_reasoning :: string

datatype http_exception = HTTPException int string

text \<open>The \<open>try\<close> block of \<open>query_documents\<close>.\<close>

definition query_try :: "('v, 'w) app \<Rightarrow> query_request \<Rightarrow> 'w \<Rightarrow> (exn + query_response) \<times> 'w" where
  "query_try a request w =
     (let q = query_request.question request in
      case query_analyzer a q of
        Inl e \<Rightarrow> (Inl e, w)
      | Inr an \<Rightarrow>
          (case (if analysis.is_complex an then query_decomposer a q else Inr [q]) of
             Inl e \<Rightarrow> (Inl e, w)
           | Inr subqs \<Rightarrow>
               (case retrieve_for_multiple_queries (retriever a) subqs None
                       (query_request.document_filter request) w of
                  (Inl e, w1) \<Rightarrow> (Inl e, w1)
                | (Inr results_by_query, w1) \<Rightarrow>
                    (let aggregated_chunks = aggregate (context_aggregator a) results_by_query;
                         formatted_context = format_context aggregated_chunks
                     in case synthesize (answer_synthesizer a) q formatted_context aggregated_chunks of
                          Inl e \<Rightarrow> (Inl e, w1)
                        | Inr synthesis \<Rightarrow>
                            (Inr \<lparr>question = q,
                                  answer = synthesis_result.answer synthesis,
                                  is_complex = analysis.is_complex an,
                                  sub_questions = (if analysis.is_complex an then Some subqs else None),
                                  sources = synthesis_result.sources synthesis,
                                  total_chunks_retrieved = int (length aggregated_chunks),
                                  analysis_reasoning = reasoning an\<rparr>, w1)))))"

text \<open>\<open>except Exception as e: raise HTTPException(status_code=500, ...)\<close>.\<close>

definition query_documents ::
  "('v, 'w) app \<Rightarrow> query_request \<Rightarrow> 'w \<Rightarrow> (http_exception + query_response) \<times> 'w" where
  "query_documents a request w =
     (case query_try a request w of
        (Inl e, w1) \<Rightarrow> (Inl (HTTPException 500 (''Query failed: '' @ exn_str e)), w1)
      | (Inr response, w1) \<Rightarrow> (Inr response, w1))"

section \<open>Auxiliary definitions and example inputs\<close>

text \<open>
  The invariant of the two collecting loops: \<open>pre\<close> is what has been iterated so far,
  \<open>acc\<close> is \<open>all_chunks\<close> and \<open>seen\<close> is \<open>seen_content\<close>.
\<close>

definition dedup_inv :: "chunk list \<Rightarrow> chunk list \<Rightarrow> string set \<Rightarrow> bool" where
  "dedup_inv pre acc seen \<longleftrightarrow>
     seen = content ` set pre \<and> content ` set acc = seen \<and> distinct (map content acc) \<and>
     (\<forall>c\<in>set acc. find (\<lambda>x. content x = content c) pre = Some c)"

text \<open>A parsed payload that is an object holding both named fields.\<close>

definition has_keys :: "json \<Rightarrow> bool" where
  "has_keys v =
     (case v of
        JObj kvs \<Rightarrow> map_of kvs ''is_complex'' \<noteq> None \<and> map_of kvs ''reasoning'' \<noteq> None
      | _ \<Rightarrow> False)"

text \<open>
  Example chunks: \<open>chunk_a_later\<close> repeats the content of \<open>chunk_a\<close> with other metadata
  and a higher similarity; \<open>chunk_c\<close> has only the keys \<open>content\<close> and \<open>similarity\<close>, and
  ties with \<open>chunk_a\<close>.
\<close>

definition chunk_a :: chunk where
  "chunk_a = \<lparr>content = ''alpha'', document_name = Some ''a.pdf'', page_number = Some 1,
      content_type = Some ''text'', similarity = Some (71 / 100)\<rparr>"

definition chunk_a_later :: chunk where
  "chunk_a_later = \<lparr>content = ''alpha'', document_name = Some ''b.pdf'', page_number = Some 2,
      content_type = Some ''table'', similarity = Some (9 / 10)\<rparr>"

definition chunk_b :: chunk where
  "chunk_b = \<lparr>content = ''beta'', document_name = Some ''b.pdf'', page_number = Some 3,
      content_type = Some ''text'', similarity = Some (8 / 10)\<rparr>"

definition chunk_c :: chunk where
  "chunk_c = \<lparr>content = ''hi'', document_name = None, page_number = None,
      content_type = None, similarity = Some (71 / 100)\<rparr>"

definition chunk_d :: chunk where
  "chunk_d = \<lparr>content = ''gamma'', document_name = Some ''c.pdf'', page_number = Some 12,
      content_type = Some ''image'', similarity = None\<rparr>"

definition example_results :: result_map where
  "example_results =
     [(''What is X?'', [chunk_a]), (''What is Y?'', [chunk_a_later, chunk_b, chunk_c])]"

text \<open>\<open>json.loads\<close> on the one payload the examples use.\<close>

definition example_loads :: "string \<Rightarrow> json option" where
  "example_loads t = (if t = ''{}'' then Some (JObj []) else None)"

definition example_synthesizer :: AnswerSynthesizer where
  "example_synthesizer = \<lparr>synthesizer_llm = (\<lambda>ctx q. Inr '' X is 1 [Source 9]. '')\<rparr>"

definition failing_synthesizer :: AnswerSynthesizer where
  "failing_synthesizer =
     \<lparr>synthesizer_llm = (\<lambda>ctx q. Inl (Exn OtherException ''Connection error.''))\<rparr>"

text \<open>
  An example retriever over a store whose state counts its searches (the first search
  finds \<open>chunk_a\<close>, the second nothing, the later ones two chunks), one whose store
  raises on one query and whose embedder raises on another, and an application around
  either.
\<close>

definition example_retriever :: "(string, nat) SemanticRetriever" where
  "example_retriever =
     \<lparr>vector_store = (\<lambda>v k f thr w.
          (Inr (if w = 0 then [chunk_a] else if w = 1 then [] else [chunk_a_later, chunk_b]), Suc w)),
      embedder = (\<lambda>q w. (Inr q, w)),
      top_k = 5,
      similarity_threshold = 7 / 10\<rparr>"

definition failing_retriever :: "(string, nat) SemanticRetriever" where
  "failing_retriever =
     \<lparr>vector_store = (\<lambda>v k f thr w.
          (if v = ''What is Y?'' then Inl (Exn OtherException ''Weaviate unavailable'')
           else Inr [chunk_a], Suc w)),
      embedder = (\<lambda>q w. if q = ''What is Z?'' then (Inl (Exn OtherException ''model not loaded''), w)
                          else (Inr q, w)),
      top_k = 5,
      similarity_threshold = 7 / 10\<rparr>"

definition example_app :: "(string, nat) SemanticRetriever \<Rightarrow> AnswerSynthesizer \<Rightarrow> (string, nat) app" where
  "example_app r s =
     \<lparr>query_analyzer = (\<lambda>q. Inr \<lparr>analysis.is_complex = True, reasoning = ''two intents''\<rparr>),
      query_decomposer = (\<lambda>q. Inr [''What is X?'', ''What is Y?'']),
      retriever = r,
      context_aggregator = \<lparr>max_context_tokens = 2048\<rparr>,
      answer_synthesizer = s\<rparr>"

definition example_request :: query_request where
  "example_request = \<lparr>query_request.question = ''What is X and what is Y?'', document_filter = None\<rparr>"

section \<open>Facts about the aggregator\<close>

lemmas example_defs =
  chunk_a_def chunk_a_later_def chunk_b_def chunk_c_def chunk_d_def example_results_def

lemmas aggregate_defs =
  aggregate_def ranked_def collected_def sort_desc_def similarity_key_def flattened_def
  total_chars_of_def

subsection \<open>The collecting loops\<close>

lemma find_append_first:
  "find P (xs @ ys) = (case find P xs of None \<Rightarrow> find P ys | Some x \<Rightarrow> Some x)"
  by (induction xs) auto

lemma find_None_content: "s \<notin> content ` set xs \<Longrightarrow> find (\<lambda>x. content x = s) xs = None"
  by (induction xs) auto

lemma dedup_inv_new:
  assumes "dedup_inv pre acc seen" "content c \<notin> seen"
  shows "dedup_inv (pre @ [c]) (acc @ [c]) (insert (content c) seen)"
  using assms unfolding dedup_inv_def
  by (auto simp: find_append_first find_None_content)

lemma dedup_inv_old:
  assumes "dedup_inv pre acc seen" "content c \<in> seen"
  shows "dedup_inv (pre @ [c]) acc seen"
  using assms unfolding dedup_inv_def
  by (auto simp: find_append_first)

lemma collect_chunks_inv:
  "dedup_inv pre acc seen \<Longrightarrow> collect_chunks cs acc seen = (a, s) \<Longrightarrow> dedup_inv (pre @ cs) a s"
proof (induction cs arbitrary: pre acc seen)
  case Nil
  then show ?case by simp
next
  case (Cons c cs)
  show ?case
  proof (cases "content c \<in> seen")
    case True
    with Cons.prems have "collect_chunks cs acc seen = (a, s)" by simp
    from Cons.IH[OF dedup_inv_old[OF Cons.prems(1) True] this] show ?thesis by simp
  next
    case False
    with Cons.prems have "collect_chunks cs (acc @ [c]) (insert (content c) seen) = (a, s)"
      by simp
    from Cons.IH[OF dedup_inv_new[OF Cons.prems(1) False] this] show ?thesis by simp
  qed
qed

lemma collect_results_inv:
  "dedup_inv pre acc seen \<Longrightarrow> collect_results rs acc seen = (a, s)
     \<Longrightarrow> dedup_inv (pre @ flattened rs) a s"
proof (induction rs arbitrary: pre acc seen)
  case Nil
  then show ?case by (simp add: flattened_def)
next
  case (Cons r rs)
  obtain q cs where r: "r = (q, cs)" by (cases r)
  obtain a1 s1 where c1: "collect_chunks cs acc seen = (a1, s1)"
    by (cases "collect_chunks cs acc seen")
  from Cons.prems(2) r c1 have "collect_results rs a1 s1 = (a, s)" by simp
  from Cons.IH[OF collect_chunks_inv[OF Cons.prems(1) c1] this]
  show ?case by (simp add: flattened_def r)
qed

lemma collected_inv: "dedup_inv (flattened rs) (collected rs) (content ` set (flattened rs))"
proof -
  have i0: "dedup_inv [] [] {}" by (simp add: dedup_inv_def)
  obtain a s where c: "collect_results rs [] {} = (a, s)" by (cases "collect_results rs [] {}")
  from collect_results_inv[OF i0 c] have "dedup_inv (flattened rs) a s" by simp
  then show ?thesis using c by (simp add: collected_def dedup_inv_def)
qed

subsection \<open>The sort\<close>

lemma set_insort_desc: "set (insort_desc k x ys) = insert x (set ys)"
  by (induction ys) auto

lemma set_sort_desc: "set (sort_desc k xs) = set xs"
  by (induction xs) (auto simp: sort_desc_def set_insort_desc)

lemma distinct_map_insort_desc:
  "distinct (map f (insort_desc k x ys)) \<longleftrightarrow> f x \<notin> f ` set ys \<and> distinct (map f ys)"
  by (induction ys) (auto simp: set_insort_desc)

lemma distinct_map_sort_desc: "distinct (map f (sort_desc k xs)) \<longleftrightarrow> distinct (map f xs)"
  by (induction xs)
    (auto simp: sort_desc_def distinct_map_insort_desc set_sort_desc[unfolded sort_desc_def])





lemma sum_insort_desc:
  "sum_list (map f (insort_desc k x ys)) = (f x :: int) + sum_list (map f ys)"
  by (induction ys) auto

lemma total_chars_sort_desc: "total_chars_of (sort_desc k xs) = total_chars_of xs"
  by (induction xs) (auto simp: sort_desc_def total_chars_of_def sum_insort_desc)

subsection \<open>The packing loop\<close>

lemma pack_chunks_prefix:
  "\<exists>n\<le>length cs. pack_chunks cs M acc t = acc @ take n cs \<and>
      (0 < n \<longrightarrow> t + total_chars_of (take n cs) \<le> M) \<and>
      (n < length cs \<longrightarrow> M < t + total_chars_of (take n cs) + int (length (content (cs ! n))))"
proof (induction cs arbitrary: acc t)
  case Nil
  then show ?case by (simp add: total_chars_of_def)
next
  case (Cons c cs)
  show ?case
  proof (cases "t + int (length (content c)) \<le> M")
    case True
    from Cons.IH[of "acc @ [c]" "t + int (length (content c))"]
    obtain n where n: "n \<le> length cs"
      "pack_chunks cs M (acc @ [c]) (t + int (length (content c))) = (acc @ [c]) @ take n cs"
      "0 < n \<longrightarrow> t + int (length (content c)) + total_chars_of (take n cs) \<le> M"
      "n < length cs \<longrightarrow>
         M < t + int (length (content c)) + total_chars_of (take n cs)
               + int (length (content (cs ! n)))"
      by blast
    show ?thesis
      apply (rule exI[of _ "Suc n"])
      using True n by (auto simp: total_chars_of_def Let_def)
  next
    case False
    show ?thesis
      apply (rule exI[of _ 0])
      using False by (simp add: total_chars_of_def Let_def)
  qed
qed

lemma aggregate_prefix:
  "\<exists>n\<le>length (ranked rs). aggregate self rs = take n (ranked rs) \<and>
      (0 < n \<longrightarrow> total_chars_of (take n (ranked rs)) \<le> max_context_tokens self * 4) \<and>
      (n < length (ranked rs) \<longrightarrow>
         max_context_tokens self * 4
           < total_chars_of (take n (ranked rs)) + int (length (content (ranked rs ! n))))"
  using pack_chunks_prefix[of "ranked rs" "max_context_tokens self * 4" "[]" 0]
  by (simp add: aggregate_def Let_def)

lemma total_take_le: "total_chars_of (take n xs) \<le> total_chars_of xs"
proof -
  have "total_chars_of xs = total_chars_of (take n xs) + total_chars_of (drop n xs)"
    unfolding total_chars_of_def by (metis append_take_drop_id map_append sum_list_append)
  moreover have "0 \<le> total_chars_of (drop n xs)"
    unfolding total_chars_of_def by (rule sum_list_nonneg) auto
  ultimately show ?thesis by simp
qed

lemma total_take_Suc:
  "n < length xs \<Longrightarrow>
     total_chars_of (take (Suc n) xs) = total_chars_of (take n xs) + int (length (content (xs ! n)))"
  by (simp add: take_Suc_conv_app_nth total_chars_of_def)

lemma total_collected:
  "total_chars_of (collected rs) = (\<Sum>s\<in>content ` set (flattened rs). int (length s))"
proof -
  have d: "distinct (map content (collected rs))"
    and s: "content ` set (collected rs) = content ` set (flattened rs)"
    using collected_inv[of rs] by (auto simp: dedup_inv_def)
  have "total_chars_of (collected rs)
          = sum_list (map (\<lambda>s. int (length s)) (map content (collected rs)))"
    by (simp add: total_chars_of_def comp_def)
  also have "\<dots> = (\<Sum>s\<in>set (map content (collected rs)). int (length s))"
    using d by (rule sum_list_distinct_conv_sum_set)
  finally show ?thesis using s by simp
qed

lemma aggregate_all_when_fits:
  assumes "total_chars_of (ranked rs) \<le> max_context_tokens self * 4"
  shows "aggregate self rs = ranked rs"
proof -
  obtain n where n: "n \<le> length (ranked rs)" "aggregate self rs = take n (ranked rs)"
    "n < length (ranked rs) \<longrightarrow>
       max_context_tokens self * 4
         < total_chars_of (take n (ranked rs)) + int (length (content (ranked rs ! n)))"
    using aggregate_prefix[of rs self] by blast
  have "\<not> n < length (ranked rs)"
  proof
    assume l: "n < length (ranked rs)"
    with n(3) have "max_context_tokens self * 4 < total_chars_of (take (Suc n) (ranked rs))"
      by (simp add: total_take_Suc)
    also have "\<dots> \<le> total_chars_of (ranked rs)" by (rule total_take_le)
    finally show False using assms by simp
  qed
  with n show ?thesis by simp
qed

subsection \<open>Deduplication: first seen wins\<close>

text \<open>
  C1, as amended. Whatever the result map, no content occurs twice in what \<open>aggregate\<close>
  returns, and every chunk it returns is the first chunk with that content in iteration
  order over the result map (so it carries that occurrence's metadata and similarity, also
  when a later duplicate scores higher). Every distinct content of the input is returned,
  hence exactly once, when the distinct contents together fit the budget of
  \<open>4 * max_context_tokens\<close> characters; a content the packing loop cuts off is returned
  zero times.
\<close>

theorem aggregate_first_seen_once:
  "distinct (map content (aggregate self rs)) \<and>
   (\<forall>c\<in>set (aggregate self rs). find (\<lambda>x. content x = content c) (flattened rs) = Some c) \<and>
   ((\<Sum>s\<in>content ` set (flattened rs). int (length s)) \<le> 4 * max_context_tokens self \<longrightarrow>
      content ` set (aggregate self rs) = content ` set (flattened rs))"
proof -
  have inv: "dedup_inv (flattened rs) (collected rs) (content ` set (flattened rs))"
    by (rule collected_inv)
  obtain n where n: "aggregate self rs = take n (ranked rs)"
    using aggregate_prefix[of rs self] by blast
  have sub: "set (aggregate self rs) \<subseteq> set (collected rs)"
    unfolding n ranked_def using set_take_subset[of n "sort_desc similarity_key (collected rs)"]
    by (simp add: set_sort_desc)
  have "distinct (map content (ranked rs))"
    using inv by (simp add: ranked_def distinct_map_sort_desc dedup_inv_def)
  then have d: "distinct (map content (aggregate self rs))"
    unfolding n by (simp add: take_map[symmetric] distinct_take del: take_map)
  have f: "\<forall>c\<in>set (aggregate self rs). find (\<lambda>x. content x = content c) (flattened rs) = Some c"
    using sub inv by (auto simp: dedup_inv_def)
  have a: "content ` set (aggregate self rs) = content ` set (flattened rs)"
    if "(\<Sum>s\<in>content ` set (flattened rs). int (length s)) \<le> 4 * max_context_tokens self"
  proof -
    have "total_chars_of (ranked rs) \<le> max_context_tokens self * 4"
      using that by (simp add: ranked_def total_chars_sort_desc total_collected)
    then have "aggregate self rs = ranked rs" by (rule aggregate_all_when_fits)
    then show ?thesis using inv by (simp add: ranked_def set_sort_desc dedup_inv_def)
  qed
  from d f a show ?thesis by blast
qed

theorem aggregate_first_seen_once_witness:
  "aggregate \<lparr>max_context_tokens = 2048\<rparr> example_results = [chunk_b, chunk_a, chunk_c] \<and>
   similarity_key chunk_a < similarity_key chunk_a_later \<and>
   find (\<lambda>x. content x = content chunk_a) (flattened example_results) = Some chunk_a \<and>
   content ` set (aggregate \<lparr>max_context_tokens = 2048\<rparr> example_results)
     = content ` set (flattened example_results)"
  using aggregate_first_seen_once[of "\<lparr>max_context_tokens = 2048\<rparr>" example_results]
  by (simp add: aggregate_defs example_defs)

text \<open>
  The claim as stated fails where the budget cuts a content off: the result map below
  holds the content of \<open>chunk_a\<close> twice, under two sub-questions; with a budget of one
  token (four characters) its five characters do not fit, and that content is returned
  zero times.
\<close>

theorem aggregate_exactly_once_counterexample:
  "content chunk_a = content chunk_a_later \<and> chunk_a \<noteq> chunk_a_later \<and>
   flattened [(''q1'', [chunk_a]), (''q2'', [chunk_a_later])] = [chunk_a, chunk_a_later] \<and>
   aggregate \<lparr>max_context_tokens = 1\<rparr> [(''q1'', [chunk_a]), (''q2'', [chunk_a_later])] = [] \<and>
   length (filter (\<lambda>c. content c = content chunk_a)
             (aggregate \<lparr>max_context_tokens = 1\<rparr>
                [(''q1'', [chunk_a]), (''q2'', [chunk_a_later])])) \<noteq> 1"
  by (simp add: aggregate_defs example_defs)

subsection \<open>The character budget\<close>

lemma total_chars_nonneg: "0 \<le> total_chars_of xs"
  unfolding total_chars_of_def by (rule sum_list_nonneg) auto

text \<open>
  C2. What \<open>aggregate\<close> returns is the initial segment of length \<open>n\<close> of the ranked
  list, where a non-empty segment has at most \<open>4 * max_context_tokens\<close> characters and,
  when the segment is not the whole list, the chunk right after it is one whose inclusion
  would pass that budget: packing stops at the first such chunk, and no later chunk is
  included, however small. For a budget \<open>max_context_tokens \<ge> 0\<close> the characters
  of the result sum to at most \<open>4 * max_context_tokens\<close>.
\<close>

theorem aggregate_budget_hard_stop:
  "\<exists>n\<le>length (ranked rs).
      aggregate self rs = take n (ranked rs) \<and>
      (0 < n \<longrightarrow> total_chars_of (take n (ranked rs)) \<le> 4 * max_context_tokens self) \<and>
      (n < length (ranked rs) \<longrightarrow>
         4 * max_context_tokens self
           < total_chars_of (take n (ranked rs)) + int (length (content (ranked rs ! n)))) \<and>
      (0 \<le> max_context_tokens self \<longrightarrow>
         total_chars_of (aggregate self rs) \<le> 4 * max_context_tokens self)"
proof -
  obtain n where n: "n \<le> length (ranked rs)" "aggregate self rs = take n (ranked rs)"
    "0 < n \<longrightarrow> total_chars_of (take n (ranked rs)) \<le> max_context_tokens self * 4"
    "n < length (ranked rs) \<longrightarrow>
       max_context_tokens self * 4
         < total_chars_of (take n (ranked rs)) + int (length (content (ranked rs ! n)))"
    using aggregate_prefix[of rs self] by blast
  have "total_chars_of (aggregate self rs) \<le> 4 * max_context_tokens self"
    if "0 \<le> max_context_tokens self"
  proof (cases "0 < n")
    case True
    with n show ?thesis by simp
  next
    case False
    with n(2) that show ?thesis by (simp add: total_chars_of_def)
  qed
  with n show ?thesis by (intro exI[of _ n]) (simp add: mult.commute)
qed

theorem aggregate_budget_hard_stop_witness:
  "ranked example_results = [chunk_b, chunk_a, chunk_c] \<and>
   aggregate \<lparr>max_context_tokens = 2\<rparr> example_results = take 1 (ranked example_results) \<and>
   aggregate \<lparr>max_context_tokens = 2\<rparr> example_results = [chunk_b] \<and>
   (0::nat) < 1 \<and> (1::nat) < length (ranked example_results) \<and> (0::int) \<le> 2 \<and>
   total_chars_of [chunk_b] \<le> 4 * 2 \<and>
   4 * 2 < total_chars_of [chunk_b] + int (length (content chunk_a)) \<and>
   total_chars_of [chunk_b] + int (length (content chunk_c)) \<le> 4 * 2"
  using aggregate_budget_hard_stop[of example_results "\<lparr>max_context_tokens = 2\<rparr>"]
  by (simp add: aggregate_defs example_defs)

text \<open>A negative \<open>max_context_tokens\<close> packs nothing.\<close>

lemma aggregate_negative_budget: "max_context_tokens self < 0 \<Longrightarrow> aggregate self rs = []"
proof -
  assume neg: "max_context_tokens self < 0"
  obtain n where n: "aggregate self rs = take n (ranked rs)"
    "0 < n \<longrightarrow> total_chars_of (take n (ranked rs)) \<le> max_context_tokens self * 4"
    using aggregate_prefix[of rs self] by blast
  have "\<not> 0 < n"
  proof
    assume "0 < n"
    with n(2) have "total_chars_of (take n (ranked rs)) \<le> max_context_tokens self * 4" by simp
    with total_chars_nonneg[of "take n (ranked rs)"] neg show False by simp
  qed
  with n(1) show ?thesis by simp
qed

subsection \<open>Ranking\<close>



section \<open>Facts about \<open>format_context\<close>\<close>

lemma context_parts_nth:
  "context_parts i chunks = map (\<lambda>j. source_block (i + j) (chunks ! j)) [0..<length chunks]"
proof (induction chunks arbitrary: i)
  case Nil
  then show ?case by simp
next
  case (Cons c chunks)
  have "map (\<lambda>j. source_block (i + j) ((c # chunks) ! j)) [0..<length (c # chunks)]
        = source_block i c # map (\<lambda>j. source_block (Suc i + j) (chunks ! j)) [0..<length chunks]"
    by (simp add: map_upt_Suc del: upt_Suc)
  with Cons.IH[of "Suc i"] show ?case by simp
qed

lemma join_contains:
  "j < length ps \<Longrightarrow> \<exists>pre post. join sep ps = pre @ ps ! j @ post"
proof (induction sep ps arbitrary: j rule: join.induct)
  case (1 sep)
  then show ?case by simp
next
  case (2 sep p)
  then have "join sep [p] = [] @ [p] ! j @ []" by simp
  then show ?case by blast
next
  case (3 sep p q ps)
  show ?case
  proof (cases j)
    case 0
    then have "join sep (p # q # ps) = [] @ (p # q # ps) ! j @ (sep @ join sep (q # ps))"
      by simp
    then show ?thesis by blast
  next
    case (Suc j')
    with 3 obtain pre post where "join sep (q # ps) = pre @ (q # ps) ! j' @ post"
      by fastforce
    then have "join sep (p # q # ps) = (p @ sep @ pre) @ (p # q # ps) ! j @ post"
      using Suc by simp
    then show ?thesis by blast
  qed
qed

subsection \<open>Decimal numerals\<close>

lemma digit_char_code: "d < 10 \<Longrightarrow> of_char (digit_char d) = 48 + d"
proof -
  have "\<forall>d<10. (of_char (digit_char d) :: nat) = 48 + d" by code_simp
  then show "d < 10 \<Longrightarrow> of_char (digit_char d) = 48 + d" by simp
qed

lemma digit_char_in: "d < 10 \<Longrightarrow> digit_char d \<in> set ''0123456789''"
  unfolding digit_char_def by (rule nth_mem) simp

lemma digits_of_nonempty: "digits_of n \<noteq> []"
  by (subst digits_of.simps) simp

lemma digits_of_set: "set (digits_of n) \<subseteq> set ''0123456789''"
proof (induction n rule: digits_of.induct)
  case (1 n)
  show ?case
  proof (cases "n < 10")
    case True
    then show ?thesis using digit_char_in[of n] by (subst digits_of.simps) simp
  next
    case False
    have "n mod 10 < 10" by simp
    from digit_char_in[OF this] 1[OF False] False show ?thesis
      by (subst digits_of.simps) simp
  qed
qed

lemma digits_of_value:
  "foldl (\<lambda>a d. 10 * a + (of_char d - 48)) 0 (digits_of n) = n"
proof (induction n rule: digits_of.induct)
  case (1 n)
  show ?case
  proof (cases "n < 10")
    case True
    then show ?thesis using digit_char_code[of n] by (subst digits_of.simps) simp
  next
    case False
    have "n mod 10 < 10" by simp
    from digit_char_code[OF this] 1[OF False] False show ?thesis
      by (subst digits_of.simps) simp
  qed
qed

lemma digits_of_no_leading_zero: "hd (digits_of n) = CHR ''0'' \<Longrightarrow> n = 0"
proof (induction n rule: digits_of.induct)
  case (1 n)
  show ?case
  proof (cases "n < 10")
    case True
    with 1(2) have "digit_char n = CHR ''0''" by (subst (asm) digits_of.simps) simp
    then have "(of_char (digit_char n) :: nat) = 48" by simp
    with digit_char_code[OF True] show ?thesis by simp
  next
    case False
    with 1(2) have "hd (digits_of (n div 10)) = CHR ''0''"
      by (subst (asm) digits_of.simps) (simp add: digits_of_nonempty)
    from 1(1)[OF False this] False show ?thesis by simp
  qed
qed

lemma str_int_decimal:
  "\<exists>ds. str_int z = (if z < 0 then ''-'' else []) @ ds \<and> ds \<noteq> [] \<and>
        set ds \<subseteq> set ''0123456789'' \<and> (hd ds = CHR ''0'' \<longrightarrow> z = 0) \<and>
        foldl (\<lambda>a d. 10 * a + (of_char d - 48)) 0 ds = nat \<bar>z\<bar>"
proof (cases "z < 0")
  case True
  let ?ds = "digits_of (nat (- z))"
  have "hd ?ds = CHR ''0'' \<longrightarrow> z = 0"
    using digits_of_no_leading_zero[of "nat (- z)"] True by auto
  moreover have "foldl (\<lambda>a d. 10 * a + (of_char d - 48)) 0 ?ds = nat \<bar>z\<bar>"
    using digits_of_value[of "nat (- z)"] True by simp
  ultimately show ?thesis
    using True digits_of_nonempty[of "nat (- z)"] digits_of_set[of "nat (- z)"]
    by (intro exI[of _ ?ds]) (simp add: str_int_def)
next
  case False
  let ?ds = "digits_of (nat z)"
  have "hd ?ds = CHR ''0'' \<longrightarrow> z = 0"
    using digits_of_no_leading_zero[of "nat z"] False by auto
  moreover have "foldl (\<lambda>a d. 10 * a + (of_char d - 48)) 0 ?ds = nat \<bar>z\<bar>"
    using digits_of_value[of "nat z"] False by simp
  ultimately show ?thesis
    using False digits_of_nonempty[of "nat z"] digits_of_set[of "nat z"]
    by (intro exI[of _ ?ds]) (simp add: str_int_def)
qed

subsection \<open>The rendered context\<close>

lemma join_concat: "join sep (p # ps) = p @ concat (map (\<lambda>q. sep @ q) ps)"
  by (induction sep "p # ps" arbitrary: p ps rule: join.induct) auto

lemma format_context_cons:
  "format_context (c # cs)
     = source_block 1 c
       @ concat (map (\<lambda>j. [CHR 0x0A, CHR 0x0A, CHR ''-'', CHR ''-'', CHR ''-'', CHR 0x0A, CHR 0x0A]
                          @ source_block (j + 2) (cs ! j)) [0..<length cs])"
proof -
  have "context_parts 1 (c # cs)
          = source_block 1 c # map (\<lambda>j. source_block (j + 2) (cs ! j)) [0..<length cs]"
    by (simp add: context_parts_nth[of "Suc (Suc 0)" cs] add.commute)
  then show ?thesis
    by (simp add: format_context_def join_concat separator_def newline_def map_concat comp_def)
qed

lemma format_context_contains:
  assumes "j < length chunks"
  shows "\<exists>pre post. format_context chunks = pre @ source_block (Suc j) (chunks ! j) @ post"
proof -
  from assms have ne: "chunks \<noteq> []" by auto
  let ?ps = "map (\<lambda>j. source_block (Suc j) (chunks ! j)) [0..<length chunks]"
  have f: "format_context chunks = join separator ?ps"
    using ne by (simp add: format_context_def context_parts_nth)
  from assms have "j < length ?ps" by simp
  from join_contains[OF this, of separator] show ?thesis using f assms by simp
qed

text \<open>
  C8. On the empty sequence \<open>format_context\<close> returns the sentinel. On a non-empty one
  it returns the block of the first chunk, numbered 1, followed for each further chunk,
  in input order, by the separator (a blank line, three dashes, a blank line) and that
  chunk's block, the chunk at index \<open>j\<close> of the rest numbered \<open>j + 2\<close>; so every chunk's
  block stands in the result. A block is \<open>[Source N]\<close>, the document name, the page
  number, the content type and, on the next line, the text, with \<open>Unknown\<close>, \<open>N/A\<close> and
  \<open>text\<close> where the chunk has no such key. A number is written as its decimal
  numeral: a minus sign when negative, then digits without a leading zero whose value is
  the number's absolute value.
\<close>

theorem format_context_renders_all:
  "format_context [] = ''No relevant context found.'' \<and>
   format_context (c # cs)
     = source_block 1 c
       @ concat (map (\<lambda>j. [CHR 0x0A, CHR 0x0A, CHR ''-'', CHR ''-'', CHR ''-'', CHR 0x0A, CHR 0x0A]
                          @ source_block (j + 2) (cs ! j)) [0..<length cs]) \<and>
   (\<forall>j<length chunks. \<exists>pre post.
      format_context chunks = pre @ source_block (Suc j) (chunks ! j) @ post) \<and>
   source_block i ch
     = ''[Source '' @ str_int (int i) @ ''] Document: ''
         @ (case document_name ch of None \<Rightarrow> ''Unknown'' | Some d \<Rightarrow> d)
         @ '', Page: '' @ (case page_number ch of None \<Rightarrow> ''N/A'' | Some p \<Rightarrow> str_int p)
         @ '', Type: '' @ (case content_type ch of None \<Rightarrow> ''text'' | Some t \<Rightarrow> t)
         @ [CHR 0x0A] @ content ch \<and>
   (\<exists>ds. str_int z = (if z < 0 then ''-'' else []) @ ds \<and> ds \<noteq> [] \<and>
         set ds \<subseteq> set ''0123456789'' \<and> (hd ds = CHR ''0'' \<longrightarrow> z = 0) \<and>
         foldl (\<lambda>a d. 10 * a + (of_char d - 48)) 0 ds = nat \<bar>z\<bar>)"
proof -
  have a: "format_context [] = ''No relevant context found.''"
    by (simp add: format_context_def)
  have d: "source_block i ch
     = ''[Source '' @ str_int (int i) @ ''] Document: ''
         @ (case document_name ch of None \<Rightarrow> ''Unknown'' | Some d \<Rightarrow> d)
         @ '', Page: '' @ (case page_number ch of None \<Rightarrow> ''N/A'' | Some p \<Rightarrow> str_int p)
         @ '', Type: '' @ (case content_type ch of None \<Rightarrow> ''text'' | Some t \<Rightarrow> t)
         @ [CHR 0x0A] @ content ch"
    by (simp add: source_block_def Let_def newline_def)
  from a format_context_cons[of c cs] format_context_contains[of _ chunks] d str_int_decimal[of z]
  show ?thesis by blast
qed

theorem format_context_renders_all_witness:
  "(2::nat) < length [chunk_b, chunk_c, chunk_d] \<and>
   format_context [chunk_b, chunk_c, chunk_d]
     = ''[Source 1] Document: b.pdf, Page: 3, Type: text'' @ [CHR 0x0A] @ ''beta''
       @ [CHR 0x0A, CHR 0x0A] @ ''---'' @ [CHR 0x0A, CHR 0x0A]
       @ ''[Source 2] Document: Unknown, Page: N/A, Type: text'' @ [CHR 0x0A] @ ''hi''
       @ [CHR 0x0A, CHR 0x0A] @ ''---'' @ [CHR 0x0A, CHR 0x0A]
       @ ''[Source 3] Document: c.pdf, Page: 12, Type: image'' @ [CHR 0x0A] @ ''gamma'' \<and>
   source_block 12 chunk_d
     = ''[Source 12] Document: c.pdf, Page: 12, Type: image'' @ [CHR 0x0A] @ ''gamma'' \<and>
   str_int 120 = ''120'' \<and> str_int (- 7) = ''-7'' \<and> hd ''120'' \<noteq> CHR ''0''"
proof -
  have e: "format_context [chunk_b, chunk_c, chunk_d]
     = ''[Source 1] Document: b.pdf, Page: 3, Type: text'' @ [CHR 0x0A] @ ''beta''
       @ [CHR 0x0A, CHR 0x0A] @ ''---'' @ [CHR 0x0A, CHR 0x0A]
       @ ''[Source 2] Document: Unknown, Page: N/A, Type: text'' @ [CHR 0x0A] @ ''hi''
       @ [CHR 0x0A, CHR 0x0A] @ ''---'' @ [CHR 0x0A, CHR 0x0A]
       @ ''[Source 3] Document: c.pdf, Page: 12, Type: image'' @ [CHR 0x0A] @ ''gamma''"
    by code_simp
  have s: "source_block 12 chunk_d
     = ''[Source 12] Document: c.pdf, Page: 12, Type: image'' @ [CHR 0x0A] @ ''gamma''"
    by code_simp
  have n: "str_int 120 = ''120''" "str_int (- 7) = ''-7''"
    by code_simp+
  from format_context_renders_all[of chunk_b "[chunk_c, chunk_d]" "[chunk_b, chunk_c, chunk_d]"
      12 chunk_d 120] e s n
  show ?thesis by simp
qed

section \<open>Facts about the agents\<close>

subsection \<open>The sources of a synthesis\<close>

lemma round3_cases:
  "round3 x = of_int \<lfloor>x * 1000\<rfloor> / 1000 \<or> round3 x = of_int (\<lfloor>x * 1000\<rfloor> + 1) / 1000"
  by (simp add: round3_def Let_def)

lemma round3_grid: "\<exists>n::int. round3 x = of_int n / 1000"
  using round3_cases[of x] by blast

lemma round3_close: "\<bar>round3 x - x\<bar> \<le> 1 / 2000"
proof -
  define y where "y = x * 1000"
  define n where "n = \<lfloor>y\<rfloor>"
  define r where "r = y - of_int n"
  have r0: "0 \<le> r" and r1: "r < 1" unfolding r_def n_def by linarith+
  have x: "x = (of_int n + r) / 1000" unfolding r_def y_def by simp
  have "round3 x = (if r < 1 / 2 then of_int n else if 1 / 2 < r then of_int (n + 1)
          else if even n then of_int n else of_int (n + 1)) / 1000"
    unfolding round3_def Let_def y_def[symmetric] n_def[symmetric] r_def[symmetric] ..
  then show ?thesis using r0 r1 unfolding x by (auto simp: field_simps abs_if split: if_splits)
qed

lemma format_sources_map: "format_sources chunks = map source_of chunks"
  by (induction chunks) auto

text \<open>
  C9. When the model call returns, \<open>synthesize\<close> returns the stripped text as the
  answer, one source per input chunk in input order, the source at index \<open>i\<close> being the
  document name, page number, content type and rounded similarity of the chunk at index
  \<open>i\<close> whatever the text says, and the number of input chunks as \<open>context_used\<close>.
  The rounded similarity is a multiple of \<open>1/1000\<close> at most \<open>1/2000\<close> away from the
  similarity.
\<close>

theorem synthesize_sources_projection:
  assumes "synthesizer_llm self ctx q = Inr response"
  shows "\<exists>r. synthesize self q ctx chunks = Inr r \<and>
           synthesis_result.answer r = strip response \<and>
           length (synthesis_result.sources r) = length chunks \<and>
           (\<forall>i<length chunks. synthesis_result.sources r ! i =
              JObj [(''document_name'', JStr (case document_name (chunks ! i) of None \<Rightarrow> ''Unknown'' | Some d \<Rightarrow> d)),
                    (''page_number'', (case page_number (chunks ! i) of None \<Rightarrow> JStr ''N/A'' | Some p \<Rightarrow> JInt p)),
                    (''content_type'', JStr (case content_type (chunks ! i) of None \<Rightarrow> ''text'' | Some t \<Rightarrow> t)),
                    (''similarity'', (case similarity (chunks ! i) of None \<Rightarrow> JInt 0 | Some x \<Rightarrow> JFloat (round3 x)))]) \<and>
           context_used r = int (length chunks) \<and>
           (\<forall>x. \<bar>round3 x - x\<bar> \<le> 1 / 2000 \<and> (\<exists>n::int. round3 x = of_int n / 1000))"
proof -
  let ?r = "\<lparr>synthesis_result.answer = strip response, synthesis_result.sources = format_sources chunks,
             context_used = int (length chunks)\<rparr>"
  have r: "synthesize self q ctx chunks = Inr ?r"
    using assms by (simp add: synthesize_def synthesize_try_def)
  have s: "\<forall>i<length chunks. synthesis_result.sources ?r ! i =
              JObj [(''document_name'', JStr (case document_name (chunks ! i) of None \<Rightarrow> ''Unknown'' | Some d \<Rightarrow> d)),
                    (''page_number'', (case page_number (chunks ! i) of None \<Rightarrow> JStr ''N/A'' | Some p \<Rightarrow> JInt p)),
                    (''content_type'', JStr (case content_type (chunks ! i) of None \<Rightarrow> ''text'' | Some t \<Rightarrow> t)),
                    (''similarity'', (case similarity (chunks ! i) of None \<Rightarrow> JInt 0 | Some x \<Rightarrow> JFloat (round3 x)))]"
    by (simp add: format_sources_map source_of_def)
  have l: "length (synthesis_result.sources ?r) = length chunks"
    by (simp add: format_sources_map)
  have g: "\<forall>x. \<bar>round3 x - x\<bar> \<le> 1 / 2000 \<and> (\<exists>n::int. round3 x = of_int n / 1000)"
    using round3_close round3_grid by blast
  have a: "synthesis_result.answer ?r = strip response" "context_used ?r = int (length chunks)"
    by simp_all
  from r s l g a show ?thesis by blast
qed

theorem synthesize_sources_projection_witness:
  "synthesizer_llm example_synthesizer ''ctx'' ''What is X?'' = Inr '' X is 1 [Source 9]. '' \<and>
   synthesize example_synthesizer ''What is X?'' ''ctx'' [chunk_a, chunk_c]
     = Inr \<lparr>synthesis_result.answer = ''X is 1 [Source 9].'',
            synthesis_result.sources = [JObj [(''document_name'', JStr ''a.pdf''), (''page_number'', JInt 1),
                             (''content_type'', JStr ''text''), (''similarity'', JFloat (71 / 100))],
                       JObj [(''document_name'', JStr ''Unknown''), (''page_number'', JStr ''N/A''),
                             (''content_type'', JStr ''text''), (''similarity'', JFloat (71 / 100))]],
            context_used = 2\<rparr>"
proof -
  have e: "synthesizer_llm example_synthesizer ''ctx'' ''What is X?'' = Inr '' X is 1 [Source 9]. ''"
    by (simp add: example_synthesizer_def)
  have "synthesize example_synthesizer ''What is X?'' ''ctx'' [chunk_a, chunk_c]
     = Inr \<lparr>synthesis_result.answer = ''X is 1 [Source 9].'',
            synthesis_result.sources = [JObj [(''document_name'', JStr ''a.pdf''), (''page_number'', JInt 1),
                             (''content_type'', JStr ''text''), (''similarity'', JFloat (71 / 100))],
                       JObj [(''document_name'', JStr ''Unknown''), (''page_number'', JStr ''N/A''),
                             (''content_type'', JStr ''text''), (''similarity'', JFloat (71 / 100))]],
            context_used = 2\<rparr>"
    by code_simp
  with e synthesize_sources_projection[OF e, of "[chunk_a, chunk_c]"]
  show ?thesis by simp
qed

subsection \<open>The classifier's fallback\<close>

lemma analyze_try_raises_not_decode:
  "loads response = Some v \<Longrightarrow> \<not> has_keys v \<Longrightarrow>
     \<exists>c m. analyze_try loads response = Inl (Exn c m) \<and> c \<noteq> JSONDecodeError"
  by (cases v) (auto simp: analyze_try_def json_loads_def has_keys_def split: option.splits)

text \<open>
  Where the classifier does fall back: on a call that raises anything but a
  \<open>JSONDecodeError\<close>, on a payload that is not JSON, and on a payload that is not an
  object holding both named fields, the result is \<open>is_complex = False\<close> with a
  diagnostic string; an object holding both fields is returned as parsed.
\<close>

lemma analyze_fallback:
  "(analyzer_llm self query = Inl e \<and> exn_class_of e \<noteq> JSONDecodeError \<longrightarrow>
      analyze loads self query
        = Inr (JObj [(''is_complex'', JBool False), (''reasoning'', JStr (''Error: '' @ exn_str e))])) \<and>
   (analyzer_llm self query = Inr response \<and> loads response = None \<longrightarrow>
      analyze loads self query
        = Inr (JObj [(''is_complex'', JBool False), (''reasoning'', JStr ''Failed to parse response'')])) \<and>
   (analyzer_llm self query = Inr response \<and> loads response = Some v \<and> \<not> has_keys v \<longrightarrow>
      (\<exists>s. analyze loads self query
        = Inr (JObj [(''is_complex'', JBool False), (''reasoning'', JStr s)]))) \<and>
   (analyzer_llm self query = Inr response \<and> loads response = Some v \<and> has_keys v \<longrightarrow>
      analyze loads self query = Inr v)"
proof -
  have a: "analyze loads self query
        = Inr (JObj [(''is_complex'', JBool False), (''reasoning'', JStr (''Error: '' @ exn_str e))])"
    if "analyzer_llm self query = Inl e" "exn_class_of e \<noteq> JSONDecodeError"
    using that by (simp add: analyze_def analyze_except_def)
  have b: "analyze loads self query
        = Inr (JObj [(''is_complex'', JBool False), (''reasoning'', JStr ''Failed to parse response'')])"
    if "analyzer_llm self query = Inr response" "loads response = None"
    using that by (simp add: analyze_def analyze_except_def analyze_try_def json_loads_def read_response_def)
  have c: "\<exists>s. analyze loads self query
        = Inr (JObj [(''is_complex'', JBool False), (''reasoning'', JStr s)])"
    if "analyzer_llm self query = Inr response" "loads response = Some v" "\<not> has_keys v"
  proof -
    from analyze_try_raises_not_decode[of loads response v] that(2,3)
    obtain c m where "analyze_try loads response = Inl (Exn c m)" "c \<noteq> JSONDecodeError" by blast
    with that(1) show ?thesis by (simp add: analyze_def analyze_except_def)
  qed
  have d: "analyze loads self query = Inr v"
    if "analyzer_llm self query = Inr response" "loads response = Some v" "has_keys v"
    using that by (cases v) (auto simp: analyze_def analyze_try_def json_loads_def has_keys_def)
  from a b c d show ?thesis by blast
qed

text \<open>
  C6 asks that \<open>analyze\<close> never raises. It does when the model call itself raises a
  \<open>JSONDecodeError\<close> (a client that fails to decode the provider's reply): the handler
  for that class formats \<open>response.content\<close> into its warning, \<open>response\<close> was never
  bound, and the \<open>UnboundLocalError\<close> leaves the function.
\<close>

theorem analyze_raises_when_call_raises_decode_error:
  "analyze loads \<lparr>analyzer_llm = (\<lambda>q. Inl (Exn JSONDecodeError msg))\<rparr> query
     = Inl (Exn UnboundLocalError
         (''cannot access local variable '' @ quoted ''response''
            @ '' where it is not associated with a value''))"
  by (simp add: analyze_def analyze_except_def read_response_def)

subsection \<open>The decomposer's fallback\<close>

text \<open>
  What \<open>decompose\<close> returns, case by case: the one-element list of the query on a call
  that raises anything but a \<open>JSONDecodeError\<close>, on a payload that is not JSON and on a
  payload that is not an object; the empty list on an object without the key
  \<open>sub_questions\<close>; the list under that key, empty or not, when it holds a list.
\<close>

lemma decompose_cases:
  "(decomposer_llm self query = Inl e \<and> exn_class_of e \<noteq> JSONDecodeError \<longrightarrow>
      decompose loads self query = Inr (JArr [JStr query])) \<and>
   (decomposer_llm self query = Inr response \<and> loads response = None \<longrightarrow>
      decompose loads self query = Inr (JArr [JStr query])) \<and>
   (decomposer_llm self query = Inr response \<and> loads response = Some v \<and> (\<forall>kvs. v \<noteq> JObj kvs) \<longrightarrow>
      decompose loads self query = Inr (JArr [JStr query])) \<and>
   (decomposer_llm self query = Inr response \<and> loads response = Some (JObj kvs)
      \<and> map_of kvs ''sub_questions'' = None \<longrightarrow>
      decompose loads self query = Inr (JArr [])) \<and>
   (decomposer_llm self query = Inr response \<and> loads response = Some (JObj kvs)
      \<and> map_of kvs ''sub_questions'' = Some (JArr xs) \<longrightarrow>
      decompose loads self query = Inr (JArr xs))"
proof -
  have c: "decompose loads self query = Inr (JArr [JStr query])"
    if "decomposer_llm self query = Inr response" "loads response = Some v" "\<forall>kvs. v \<noteq> JObj kvs"
    using that by (cases v) (auto simp: decompose_def decompose_try_def json_loads_def decompose_except_def)
  show ?thesis
    using c by (auto simp: decompose_def decompose_try_def json_loads_def decompose_except_def read_response_def)
qed

text \<open>
  C4 asks for a non-empty result, and for the one-element list of the query whenever the
  payload does not have the expected structure. On the payload \<open>{}\<close>, an object without
  the key, \<open>result.get("sub_questions", [])\<close> yields the empty list and \<open>decompose\<close>
  returns it.
\<close>

theorem decompose_empty_on_missing_key:
  "decompose example_loads \<lparr>decomposer_llm = (\<lambda>q. Inr ''{}'')\<rparr> query = Inr (JArr [])"
  by (simp add: decompose_def decompose_try_def json_loads_def example_loads_def)

text \<open>The handler's unbound \<open>response\<close>, as in \<open>analyze\<close>.\<close>

lemma decompose_raises_when_call_raises_decode_error:
  "decompose loads \<lparr>decomposer_llm = (\<lambda>q. Inl (Exn JSONDecodeError msg))\<rparr> query
     = Inl (Exn UnboundLocalError
         (''cannot access local variable '' @ quoted ''response''
            @ '' where it is not associated with a value''))"
  by (simp add: decompose_def decompose_except_def read_response_def)

section \<open>Facts about the retriever and the endpoint\<close>

lemmas retriever_defs =
  retrieve_for_multiple_queries_def retrieve_def example_retriever_def failing_retriever_def

subsection \<open>The result map of a multi-query retrieval\<close>









subsection \<open>Faults of the embedder and the store\<close>

lemma retrieve_loop_append:
  "retrieve_loop self (xs @ ys) k f acc w =
     (case retrieve_loop self xs k f acc w of
        (Inl e, w1) \<Rightarrow> (Inl e, w1)
      | (Inr m, w1) \<Rightarrow> retrieve_loop self ys k f m w1)"
proof (induction xs arbitrary: acc w)
  case Nil
  then show ?case by simp
next
  case (Cons x xs)
  obtain r w1 where r: "retrieve self x k f w = (r, w1)" by (cases "retrieve self x k f w")
  show ?case
  proof (cases r)
    case (Inl e)
    with r show ?thesis by simp
  next
    case (Inr res)
    with r Cons.IH[of "dict_set acc x res" w1] show ?thesis by simp
  qed
qed

lemma retrieve_for_multiple_queries_fault:
  assumes "retrieve_for_multiple_queries self pre k f w = (Inr m, w1)"
    and "retrieve self q k f w1 = (Inl e, w2)"
  shows "retrieve_for_multiple_queries self (pre @ q # post) k f w = (Inl e, w2)"
  using assms by (simp add: retrieve_for_multiple_queries_def retrieve_loop_append)

text \<open>
  C5. \<open>retrieve\<close> returns the embedder's exception as it is, and otherwise whatever the
  store's search returns, its exception included; \<open>retrieve_for_multiple_queries\<close>
  ends with the exception of the first sub-question whose retrieval raises; and
  \<open>query_documents\<close> then raises the HTTP error 500 carrying that exception's message,
  in place of a response.
\<close>

theorem retrieval_fault_propagates:
  "(embedder self q w = (Inl e, w1) \<longrightarrow> retrieve self q k f w = (Inl e, w1)) \<and>
   (embedder self q' v = (Inr emb, v1) \<longrightarrow>
      retrieve self q' k f v
        = vector_store self emb (case k of None \<Rightarrow> top_k self | Some n \<Rightarrow> if n = 0 then top_k self else n)
            f (similarity_threshold self) v1) \<and>
   (retrieve_for_multiple_queries self pre k f u = (Inr m, u1) \<and>
    retrieve self q'' k f u1 = (Inl e', u2) \<longrightarrow>
      retrieve_for_multiple_queries self (pre @ q'' # post) k f u = (Inl e', u2)) \<and>
   (query_analyzer a (query_request.question request) = Inr an \<and>
    (if analysis.is_complex an then query_decomposer a (query_request.question request)
     else Inr [query_request.question request]) = Inr (pre' @ sq # post') \<and>
    retrieve_for_multiple_queries (retriever a) pre' None (query_request.document_filter request) s
      = (Inr m', s1) \<and>
    retrieve (retriever a) sq None (query_request.document_filter request) s1 = (Inl e'', s2) \<longrightarrow>
      query_documents a request s = (Inl (HTTPException 500 (''Query failed: '' @ exn_str e'')), s2))"
proof -
  have a: "retrieve self q k f w = (Inl e, w1)" if "embedder self q w = (Inl e, w1)"
    using that by (simp add: retrieve_def)
  have b: "retrieve self q' k f v
        = vector_store self emb (case k of None \<Rightarrow> top_k self | Some n \<Rightarrow> if n = 0 then top_k self else n)
            f (similarity_threshold self) v1" if "embedder self q' v = (Inr emb, v1)"
    using that by (simp add: retrieve_def Let_def)
  have c: "retrieve_for_multiple_queries self (pre @ q'' # post) k f u = (Inl e', u2)"
    if "retrieve_for_multiple_queries self pre k f u = (Inr m, u1)"
       "retrieve self q'' k f u1 = (Inl e', u2)"
    using that by (rule retrieve_for_multiple_queries_fault)
  have d: "query_documents a request s = (Inl (HTTPException 500 (''Query failed: '' @ exn_str e'')), s2)"
    if an: "query_analyzer a (query_request.question request) = Inr an"
    and sq: "(if analysis.is_complex an then query_decomposer a (query_request.question request)
     else Inr [query_request.question request]) = Inr (pre' @ sq # post')"
    and r1: "retrieve_for_multiple_queries (retriever a) pre' None (query_request.document_filter request) s
      = (Inr m', s1)"
    and r2: "retrieve (retriever a) sq None (query_request.document_filter request) s1 = (Inl e'', s2)"
  proof -
    from retrieve_for_multiple_queries_fault[OF r1 r2, of post']
    have "retrieve_for_multiple_queries (retriever a) (pre' @ sq # post') None
            (query_request.document_filter request) s = (Inl e'', s2)" .
    with an sq have "query_try a request s = (Inl e'', s2)"
      by (simp add: query_try_def Let_def)
    then show ?thesis by (simp add: query_documents_def)
  qed
  from a b c d show ?thesis by blast
qed

theorem retrieval_fault_propagates_witness:
  "retrieve failing_retriever ''What is Z?'' None None 0
     = (Inl (Exn OtherException ''model not loaded''), 0) \<and>
   retrieve failing_retriever ''What is Y?'' None None 1
     = (Inl (Exn OtherException ''Weaviate unavailable''), 2) \<and>
   retrieve_for_multiple_queries failing_retriever [''What is X?'', ''What is Y?''] None None 0
     = (Inl (Exn OtherException ''Weaviate unavailable''), 2) \<and>
   query_documents (example_app failing_retriever example_synthesizer) example_request 0
     = (Inl (HTTPException 500 ''Query failed: Weaviate unavailable''), 2)"
proof -
  let ?a = "example_app failing_retriever example_synthesizer"
  have h1: "embedder failing_retriever ''What is Z?'' 0
              = (Inl (Exn OtherException ''model not loaded''), 0)"
    by (simp add: failing_retriever_def)
  have h2: "embedder failing_retriever ''What is Y?'' 1 = (Inr ''What is Y?'', 1)"
    by (simp add: failing_retriever_def)
  have h3: "retrieve_for_multiple_queries failing_retriever [''What is X?''] None None 0
              = (Inr [(''What is X?'', [chunk_a])], 1)"
    by (simp add: retriever_defs)
  have h4: "retrieve failing_retriever ''What is Y?'' None None 1
              = (Inl (Exn OtherException ''Weaviate unavailable''), 2)"
    by (simp add: retriever_defs)
  have h5: "query_analyzer ?a (query_request.question example_request)
              = Inr \<lparr>analysis.is_complex = True, reasoning = ''two intents''\<rparr>"
    by (simp add: example_app_def)
  have h6: "(if analysis.is_complex \<lparr>analysis.is_complex = True, reasoning = ''two intents''\<rparr>
             then query_decomposer ?a (query_request.question example_request)
             else Inr [query_request.question example_request])
              = Inr ([''What is X?''] @ ''What is Y?'' # [])"
    by (simp add: example_app_def)
  have h7: "retriever ?a = failing_retriever" "query_request.document_filter example_request = None"
    by (simp_all add: example_app_def example_request_def)
  note t = retrieval_fault_propagates[where self = failing_retriever and q = "''What is Z?''"
      and w = 0 and e = "Exn OtherException ''model not loaded''" and ?w1.0 = 0
      and k = None and f = None
      and q' = "''What is Y?''" and v = 1 and emb = "''What is Y?''" and ?v1.0 = 1
      and pre = "[''What is X?'']" and u = 0 and m = "[(''What is X?'', [chunk_a])]" and ?u1.0 = 1
      and q'' = "''What is Y?''" and e' = "Exn OtherException ''Weaviate unavailable''" and ?u2.0 = 2
      and post = "[]"
      and a = ?a and request = example_request
      and an = "\<lparr>analysis.is_complex = True, reasoning = ''two intents''\<rparr>"
      and pre' = "[''What is X?'']" and sq = "''What is Y?''" and post' = "[]" and s = 0
      and m' = "[(''What is X?'', [chunk_a])]" and ?s1.0 = 1
      and e'' = "Exn OtherException ''Weaviate unavailable''" and ?s2.0 = 2]
  from t h1 h2 h3 h4 h5 h6 h7 show ?thesis by simp
qed

subsection \<open>Faults of the synthesis call\<close>

text \<open>
  C7. When the model call of \<open>synthesize\<close> raises, whatever the question, the context
  and the sources, \<open>synthesize\<close> returns the answer \<open>Error generating answer: \<close>
  followed by the exception's message, no sources and \<open>context_used = 0\<close>; and a query
  whose classification, decomposition and retrieval went through then returns a
  response with that answer and no sources, not an HTTP error.
\<close>

theorem synthesize_fault_degraded:
  "(synthesizer_llm self ctx q = Inl e \<longrightarrow>
      synthesize self q ctx srcs
        = Inr \<lparr>synthesis_result.answer = ''Error generating answer: '' @ exn_str e,
               synthesis_result.sources = [], context_used = 0\<rparr>) \<and>
   (query_analyzer a (query_request.question request) = Inr an \<and>
    (if analysis.is_complex an then query_decomposer a (query_request.question request)
     else Inr [query_request.question request]) = Inr subqs \<and>
    retrieve_for_multiple_queries (retriever a) subqs None (query_request.document_filter request) w
      = (Inr rs, w1) \<and>
    synthesizer_llm (answer_synthesizer a)
      (format_context (aggregate (context_aggregator a) rs)) (query_request.question request) = Inl e' \<longrightarrow>
      query_documents a request w
        = (Inr \<lparr>query_response.question = query_request.question request,
                answer = ''Error generating answer: '' @ exn_str e',
                is_complex = analysis.is_complex an,
                sub_questions = (if analysis.is_complex an then Some subqs else None),
                sources = [],
                total_chunks_retrieved = int (length (aggregate (context_aggregator a) rs)),
                analysis_reasoning = reasoning an\<rparr>, w1))"
proof -
  have a: "synthesize self q ctx srcs
        = Inr \<lparr>synthesis_result.answer = ''Error generating answer: '' @ exn_str e,
               synthesis_result.sources = [], context_used = 0\<rparr>"
    if "synthesizer_llm self ctx q = Inl e" for self q ctx srcs e
    using that by (simp add: synthesize_def synthesize_try_def)
  have b: "query_documents a request w
        = (Inr \<lparr>query_response.question = query_request.question request,
                answer = ''Error generating answer: '' @ exn_str e',
                is_complex = analysis.is_complex an,
                sub_questions = (if analysis.is_complex an then Some subqs else None),
                sources = [],
                total_chunks_retrieved = int (length (aggregate (context_aggregator a) rs)),
                analysis_reasoning = reasoning an\<rparr>, w1)"
    if an: "query_analyzer a (query_request.question request) = Inr an"
    and sq: "(if analysis.is_complex an then query_decomposer a (query_request.question request)
     else Inr [query_request.question request]) = Inr subqs"
    and r: "retrieve_for_multiple_queries (retriever a) subqs None (query_request.document_filter request) w
      = (Inr rs, w1)"
    and l: "synthesizer_llm (answer_synthesizer a)
      (format_context (aggregate (context_aggregator a) rs)) (query_request.question request) = Inl e'"
  proof -
    from a[OF l] an sq r have "query_try a request w
        = (Inr \<lparr>query_response.question = query_request.question request,
                answer = ''Error generating answer: '' @ exn_str e',
                is_complex = analysis.is_complex an,
                sub_questions = (if analysis.is_complex an then Some subqs else None),
                sources = [],
                total_chunks_retrieved = int (length (aggregate (context_aggregator a) rs)),
                analysis_reasoning = reasoning an\<rparr>, w1)"
      by (simp add: query_try_def Let_def)
    then show ?thesis by (simp add: query_documents_def)
  qed
  from a b show ?thesis by blast
qed

theorem synthesize_fault_degraded_witness:
  "synthesize failing_synthesizer ''What is X?'' ''ctx'' [chunk_a]
     = Inr \<lparr>synthesis_result.answer = ''Error generating answer: Connection error.'',
            synthesis_result.sources = [], context_used = 0\<rparr> \<and>
   query_documents (example_app example_retriever failing_synthesizer) example_request 0
     = (Inr \<lparr>query_response.question = ''What is X and what is Y?'',
             answer = ''Error generating answer: Connection error.'',
             is_complex = True,
             sub_questions = Some [''What is X?'', ''What is Y?''],
             sources = [],
             total_chunks_retrieved = 1,
             analysis_reasoning = ''two intents''\<rparr>, 2)"
proof -
  let ?a = "example_app example_retriever failing_synthesizer"
  let ?rs = "[(''What is X?'', [chunk_a]), (''What is Y?'', [])]"
  have h1: "synthesizer_llm failing_synthesizer ''ctx'' ''What is X?''
              = Inl (Exn OtherException ''Connection error.'')"
    by (simp add: failing_synthesizer_def)
  have h2: "query_analyzer ?a (query_request.question example_request)
              = Inr \<lparr>analysis.is_complex = True, reasoning = ''two intents''\<rparr>"
    by (simp add: example_app_def)
  have h3: "(if analysis.is_complex \<lparr>analysis.is_complex = True, reasoning = ''two intents''\<rparr>
             then query_decomposer ?a (query_request.question example_request)
             else Inr [query_request.question example_request])
              = Inr [''What is X?'', ''What is Y?'']"
    by (simp add: example_app_def)
  have h4: "retrieve_for_multiple_queries (retriever ?a) [''What is X?'', ''What is Y?''] None
              (query_request.document_filter example_request) 0 = (Inr ?rs, 2)"
    by (simp add: retriever_defs example_app_def example_request_def)
  have h5: "synthesizer_llm (answer_synthesizer ?a)
              (format_context (aggregate (context_aggregator ?a) ?rs))
              (query_request.question example_request)
              = Inl (Exn OtherException ''Connection error.'')"
    by (simp add: example_app_def failing_synthesizer_def)
  have h6: "aggregate (context_aggregator ?a) ?rs = [chunk_a]"
    by (simp add: example_app_def aggregate_defs example_defs)
  note t = synthesize_fault_degraded[where self = failing_synthesizer and ctx = "''ctx''"
      and q = "''What is X?''" and e = "Exn OtherException ''Connection error.''"
      and srcs = "[chunk_a]" and a = ?a and request = example_request
      and an = "\<lparr>analysis.is_complex = True, reasoning = ''two intents''\<rparr>"
      and subqs = "[''What is X?'', ''What is Y?'']" and w = 0 and rs = ?rs and ?w1.0 = 2
      and e' = "Exn OtherException ''Connection error.''"]
  from t h1 h2 h3 h4 h5 h6 show ?thesis by (simp add: example_request_def)
qed

end
